theory Spec2Isabelle
  imports Complex_Main
begin

section \<open>The stumbler component (module/main.go)\<close>

text \<open>
  The component polls a movement sensor from a background goroutine, feeds the readings
  into six moving averages and logs a summary when the loop ends. The public surface is
  \<open>Config.Validate\<close>, \<open>newStumbler\<close>, \<open>Reconfigure\<close>, \<open>DoCommand\<close> and \<open>Close\<close>.

  Conventions of the embedding:
  \<^item> Go's \<open>float64\<close> values are idealised as reals (no rounding). The one place where the
    IEEE special values matter, the quotient that computes the update frequency, is
    modelled with the type \<open>float64\<close> below.
  \<^item> A Go \<open>error\<close> result is an \<open>error option\<close> (\<open>None\<close> is \<open>nil\<close>); a pair of a value and an
    error is kept as a pair, because the code goes on to use the value after a failure.
  \<^item> The goroutine is a function from what its environment supplies (the sensor's answers,
    the points at which the context is seen cancelled, the elapsed time) to the trace of
    what it does.
\<close>

subsection \<open>Errors and dynamic values\<close>

datatype error =
    ErrorString string                \<comment> \<open>\<open>errors.New\<close>, \<open>fmt.Errorf\<close>: an error that is its message\<close>
  | FieldRequiredError string string  \<comment> \<open>\<open>utils.NewConfigValidationFieldRequiredError path field\<close>\<close>
  | UnexpectedConfigType              \<comment> \<open>\<open>resource.NativeConfig\<close>: the attributes are not a \<open>*Config\<close>\<close>
  | DependencyNotFound string         \<comment> \<open>\<open>movementsensor.FromDependencies\<close>: no such resource\<close>
  | DependencyTypeError string        \<comment> \<open>\<open>movementsensor.FromDependencies\<close>: not a movement sensor\<close>

text \<open>
  The values a \<open>map[string]interface{}\<close> holds, for the dynamic types \<open>string\<close>, \<open>int\<close>,
  \<open>bool\<close> and the \<open>nil\<close> interface.
\<close>

datatype val = VString string | VInt int | VBool bool | VNil

definition digit_char :: "nat \<Rightarrow> char" where
  "digit_char n = ''0123456789'' ! (n mod 10)"

fun nat_dec :: "nat \<Rightarrow> string" where
  "nat_dec n = (if n < 10 then [digit_char n] else nat_dec (n div 10) @ [digit_char (n mod 10)])"

definition int_dec :: "int \<Rightarrow> string" where
  "int_dec i = (if i < 0 then CHR ''-'' # nat_dec (nat (- i)) else nat_dec (nat i))"

text \<open>
  What the verb \<open>%s\<close> of \<open>fmt\<close> prints: a string as it is, a value of another type as
  \<open>%!s(type=value)\<close>, the nil interface as \<open>%!s(<nil>)\<close>.
\<close>

fun fmt_s :: "val \<Rightarrow> string" where
  "fmt_s (VString s) = s"
| "fmt_s (VInt i) = ''%!s(int='' @ int_dec i @ '')''"
| "fmt_s (VBool b) = ''%!s(bool='' @ (if b then ''true'' else ''false'') @ '')''"
| "fmt_s VNil = ''%!s(<nil>)''"

subsection \<open>The sensor\<close>

record Vector =
  vec_X :: real
  vec_Y :: real
  vec_Z :: real

record EulerAngles =
  Roll :: real
  Pitch :: real
  Yaw :: real

text \<open>
  \<open>movementsensor.MovementSensor\<close>, as far as the component uses it. The loop calls
  \<open>LinearAcceleration\<close> and \<open>AngularVelocity\<close> once per iteration, so the answer of a call
  is a function of the iteration that makes it; \<open>Orientation\<close> is called once. Each answer
  is the pair Go returns: a value and an error. An orientation is an interface value, so
  it can be \<open>nil\<close> (\<open>None\<close>); one that is not \<open>nil\<close> is given by its Euler angles.
\<close>

record MovementSensor =
  LinearAcceleration :: "nat \<Rightarrow> Vector \<times> error option"
  AngularVelocity :: "nat \<Rightarrow> Vector \<times> error option"
  Orientation :: "EulerAngles option \<times> error option"

subsection \<open>Configuration\<close>

record Config =
  IMU :: string

text \<open>\<open>Config.Validate\<close>: the dependencies of the configuration, or the error.\<close>

definition Validate :: "Config \<Rightarrow> string \<Rightarrow> string list option \<times> error option" where
  "Validate cfg path =
     (if IMU cfg = '''' then (None, Some (FieldRequiredError path ''imu''))
      else (Some [IMU cfg], None))"

subsection \<open>The moving average\<close>

text \<open>
  Modelled from the spec: the package \<open>movingaverage\<close> (\<open>New\<close>, \<open>Add\<close>, \<open>Avg\<close>) is imported by
  main.go and is not among the source files. The definitions follow sections 3 and 4.3 of
  the specification: a window capacity, a buffer of at most that many recent values and
  their running sum; \<open>Add\<close> evicts the oldest value when the buffer is at capacity, then
  appends the new one; the average is the running sum over the buffer's length, and 0
  for the empty buffer.
\<close>

record WindowedAverage =
  windowCapacity :: nat
  buffer :: "real list"
  runningSum :: real

definition New :: "nat \<Rightarrow> WindowedAverage" where
  "New n = \<lparr>windowCapacity = n, buffer = [], runningSum = 0\<rparr>"

definition evict :: "WindowedAverage \<Rightarrow> WindowedAverage" where
  "evict w =
     (case buffer w of
        [] \<Rightarrow> w
      | oldest # rest \<Rightarrow> w\<lparr>buffer := rest, runningSum := runningSum w - oldest\<rparr>)"

definition Add :: "real \<Rightarrow> WindowedAverage \<Rightarrow> WindowedAverage" where
  "Add v w =
     (let w' = (if length (buffer w) = windowCapacity w then evict w else w)
      in w'\<lparr>buffer := buffer w' @ [v], runningSum := runningSum w' + v\<rparr>)"

definition Avg :: "WindowedAverage \<Rightarrow> real" where
  "Avg w = (if buffer w = [] then 0 else runningSum w / real (length (buffer w)))"

subsection \<open>Elapsed time and the update frequency\<close>

text \<open>
  The quotient of two finite \<open>float64\<close> values. Go's floating-point division does not
  panic on a zero divisor: it yields an infinity, or NaN for 0/0.
\<close>

datatype float64 = Finite real | PosInf | NegInf | NaN

definition float64_div :: "real \<Rightarrow> real \<Rightarrow> float64" where
  "float64_div a b =
     (if b \<noteq> 0 then Finite (a / b)
      else if 0 < a then PosInf
      else if a < 0 then NegInf
      else NaN)"

text \<open>A \<open>time.Duration\<close> counts nanoseconds; \<open>Seconds\<close> is its value in seconds.\<close>

definition Seconds :: "int \<Rightarrow> real" where
  "Seconds d = real_of_int d / 1000000000"

subsection \<open>The sampling goroutine of \<open>startBackground\<close>\<close>

datatype log_entry =
    LogError error                            \<comment> \<open>\<open>logger.Error(err)\<close>\<close>
  | LogInfo string                            \<comment> \<open>\<open>logger.Info(msg)\<close>\<close>
  | RunFinished int nat float64               \<comment> \<open>"Run Finished": Runtime, Iterations, Frequency\<close>
  | Averages real real real real real real    \<comment> \<open>"Averages": X, Y, Z, RX, RY, RZ\<close>
  | OrientationInfo real real real            \<comment> \<open>"Orientation": pitch, roll, yaw\<close>

text \<open>The local variables of the goroutine, and what it has logged so far.\<close>

record sampling =
  iterations :: nat
  avgX :: WindowedAverage
  avgY :: WindowedAverage
  avgZ :: WindowedAverage
  avgRX :: WindowedAverage
  avgRY :: WindowedAverage
  avgRZ :: WindowedAverage
  logged :: "log_entry list"

definition sampling_start :: sampling where
  "sampling_start =
     \<lparr>iterations = 0,
      avgX = New 50, avgY = New 50, avgZ = New 50,
      avgRX = New 50, avgRY = New 50, avgRZ = New 50,
      logged = []\<rparr>"

text \<open>\<open>if err != nil { s.logger.Error(err) }\<close>\<close>

definition log_if_err :: "error option \<Rightarrow> log_entry list" where
  "log_if_err err = (case err of None \<Rightarrow> [] | Some e \<Rightarrow> [LogError e])"

text \<open>
  The body of the loop after the exit test (lines 171 to 188): both reads, each followed
  by its three \<open>Add\<close> calls, and the increment. Nothing branches on the error but the
  logging.
\<close>

definition iteration :: "MovementSensor \<Rightarrow> sampling \<Rightarrow> sampling" where
  "iteration imu st =
     (let (accel, err) = LinearAcceleration imu (iterations st);
          st1 = st\<lparr>logged := logged st @ log_if_err err\<rparr>;
          st2 = st1\<lparr>avgX := Add (vec_X accel) (avgX st1),
                    avgY := Add (vec_Y accel) (avgY st1),
                    avgZ := Add (vec_Z accel) (avgZ st1)\<rparr>;
          (gyro, err) = AngularVelocity imu (iterations st);
          st3 = st2\<lparr>logged := logged st2 @ log_if_err err\<rparr>;
          st4 = st3\<lparr>avgRX := Add (vec_X gyro) (avgRX st3),
                    avgRY := Add (vec_Y gyro) (avgRY st3),
                    avgRZ := Add (vec_Z gyro) (avgRZ st3)\<rparr>
      in st4\<lparr>iterations := iterations st4 + 1\<rparr>)"

text \<open>
  The loop (lines 163 to 189). \<open>ctx_Err i\<close> says whether \<open>ctx.Err() != nil\<close> holds at the
  test that opens iteration \<open>i\<close>: cancellation comes from outside the goroutine.
\<close>

function sampling_loop :: "MovementSensor \<Rightarrow> (nat \<Rightarrow> bool) \<Rightarrow> sampling \<Rightarrow> sampling" where
  "sampling_loop imu ctx_Err st =
     (if ctx_Err (iterations st) \<or> iterations st \<ge> 10000 then st
      else sampling_loop imu ctx_Err (iteration imu st))"
  by pat_completeness auto
termination
  by (relation "measure (\<lambda>(imu, ctx_Err, st). 10000 - iterations st)")
     (auto simp: iteration_def Let_def split: prod.splits)

declare sampling_loop.simps [simp del]

text \<open>
  What the goroutine does after the loop (lines 190 to 200), given the elapsed time
  \<open>runtime\<close>: the two summary lines (\<open>summary\<close>, lines 190 to 193), the orientation read
  and its log line. The result is the log and whether the body panicked:
  \<open>pose.EulerAngles()\<close> on a nil interface value is a nil dereference.
\<close>

definition summary :: "sampling \<Rightarrow> int \<Rightarrow> log_entry list" where
  "summary st runtime =
     (let updateFreq = float64_div (real (iterations st)) (Seconds runtime)
      in [RunFinished runtime (iterations st) updateFreq,
          Averages (Avg (avgX st)) (Avg (avgY st)) (Avg (avgZ st))
                   (Avg (avgRX st)) (Avg (avgRY st)) (Avg (avgRZ st))])"

definition worker_body :: "MovementSensor \<Rightarrow> (nat \<Rightarrow> bool) \<Rightarrow> int \<Rightarrow> log_entry list \<times> bool" where
  "worker_body imu ctx_Err runtime =
     (let st = sampling_loop imu ctx_Err sampling_start;
          out1 = logged st @ summary st runtime;
          (pose, err) = Orientation imu;
          out2 = out1 @ log_if_err err
      in case pose of
           None \<Rightarrow> (out2, True)
         | Some angles \<Rightarrow>
             (out2 @ [OrientationInfo (Pitch angles) (Roll angles) (Yaw angles)], False))"

text \<open>
  The goroutine with its \<open>defer s.wg.Done()\<close>: the deferred call runs when the body
  returns and also when it panics.
\<close>

datatype event = Logged log_entry | Panicked | Done

definition worker :: "MovementSensor \<Rightarrow> (nat \<Rightarrow> bool) \<Rightarrow> int \<Rightarrow> event list" where
  "worker imu ctx_Err runtime =
     (let (out, panicked) = worker_body imu ctx_Err runtime
      in map Logged out @ (if panicked then [Panicked] else []) @ [Done])"

subsection \<open>What a goroutine sees of its context\<close>

text \<open>The constant function: a sensor that always answers the same, a context never cancelled.\<close>

definition always :: "'a \<Rightarrow> nat \<Rightarrow> 'a" where
  "always x n = x"

text \<open>A context that is cancelled when iteration \<open>k\<close> is about to begin.\<close>

definition cancelled_from :: "nat \<Rightarrow> nat \<Rightarrow> bool" where
  "cancelled_from k i = (k \<le> i)"

subsection \<open>The component and its goroutines\<close>

text \<open>
  A goroutine launched by \<open>startBackground\<close>, as the component's methods can affect and
  observe it: the sensor it was given, whether its context has been cancelled, and
  whether it has returned (and so has called \<open>wg.Done\<close>).
\<close>

record task =
  task_imu :: "MovementSensor option"
  cancelled :: bool
  returned :: bool

text \<open>
  The struct \<open>stumbler\<close>. \<open>cancelFunc\<close> is \<open>nil\<close> (\<open>None\<close>) or the cancel function of the context
  of one goroutine, named by that goroutine's position in \<open>tasks\<close>; \<open>wg\<close> is the counter of
  the wait group; \<open>tasks\<close> are the goroutines launched so far, in order; \<open>logger\<close> is what
  the methods themselves have logged.
\<close>

record stumbler =
  imu :: "MovementSensor option"
  cancelFunc :: "nat option"
  wg :: int
  tasks :: "task list"
  logger :: "log_entry list"

datatype resource = MovementSensorResource MovementSensor | OtherResource

type_synonym Dependencies = "string \<rightharpoonup> resource"

text \<open>\<open>conf.ConvertedAttributes\<close>: the validated \<open>*Config\<close>, or something else.\<close>

datatype resource_Config = NativeAttributes Config | OtherAttributes

definition NativeConfig :: "resource_Config \<Rightarrow> error + Config" where
  "NativeConfig conf =
     (case conf of NativeAttributes c \<Rightarrow> Inr c | OtherAttributes \<Rightarrow> Inl UnexpectedConfigType)"

definition FromDependencies :: "Dependencies \<Rightarrow> string \<Rightarrow> error + MovementSensor" where
  "FromDependencies deps name =
     (case deps name of
        None \<Rightarrow> Inl (DependencyNotFound name)
      | Some (MovementSensorResource m) \<Rightarrow> Inr m
      | Some OtherResource \<Rightarrow> Inl (DependencyTypeError name))"

text \<open>
  \<open>startBackground\<close> (lines 144 to 150 and 203 to 204): the counter goes up, a new context
  is made and its cancel function stored over the previous one, and the goroutine is
  launched with the current sensor.
\<close>

definition startBackground :: "stumbler \<Rightarrow> stumbler \<times> error option" where
  "startBackground s =
     (s\<lparr>wg := wg s + 1,
        cancelFunc := Some (length (tasks s)),
        tasks := tasks s @ [\<lparr>task_imu = imu s, cancelled = False, returned = False\<rparr>]\<rparr>,
      None)"

definition Reconfigure :: "Dependencies \<Rightarrow> resource_Config \<Rightarrow> stumbler \<Rightarrow> stumbler \<times> error option" where
  "Reconfigure deps conf s =
     (case NativeConfig conf of
        Inl err \<Rightarrow> (s, Some err)
      | Inr newConf \<Rightarrow>
          (case FromDependencies deps (IMU newConf) of
             Inl err \<Rightarrow> (s, Some err)
           | Inr m \<Rightarrow> startBackground (s\<lparr>imu := Some m\<rparr>)))"

text \<open>The struct as \<open>newStumbler\<close> allocates it: no sensor, no cancel function, counter zero.\<close>

definition new_struct :: stumbler where
  "new_struct = \<lparr>imu = None, cancelFunc = None, wg = 0, tasks = [], logger = []\<rparr>"

definition newStumbler :: "Dependencies \<Rightarrow> resource_Config \<Rightarrow> stumbler \<times> error option" where
  "newStumbler deps conf = Reconfigure deps conf new_struct"

text \<open>
  \<open>DoCommand\<close>. The receiver is passed and returned like that of the other methods; the
  result is the pair of the response map (\<open>None\<close> is the nil map) and the error.
\<close>

definition DoCommand ::
    "stumbler \<Rightarrow> (string \<rightharpoonup> val) \<Rightarrow> stumbler \<times> (string \<rightharpoonup> val) option \<times> error option" where
  "DoCommand s req =
     (case req ''command'' of
        None \<Rightarrow> (s, None, Some (ErrorString ''missing 'command' string''))
      | Some cmd \<Rightarrow>
          if cmd = VString ''get'' then (s, Some Map.empty, None)
          else (s, None, Some (ErrorString (''unknown command string '' @ fmt_s cmd))))"

text \<open>Calling the cancel function of the context of goroutine \<open>i\<close>; a second call changes nothing.\<close>

definition cancel :: "nat \<Rightarrow> stumbler \<Rightarrow> stumbler" where
  "cancel i s =
     (if i < length (tasks s)
      then s\<lparr>tasks := (tasks s)[i := (tasks s ! i)\<lparr>cancelled := True\<rparr>]\<rparr>
      else s)"

text \<open>
  A call that may not come back: it returns, or the process exits under it (an unrecovered
  panic in any goroutine ends a Go program), or it blocks for ever.
\<close>

datatype 'a outcome = Returns 'a | ProcessExits | BlocksForever

text \<open>
  What the scheduler decides for a goroutine: the iteration at whose test a cancelled
  context is first seen, and the elapsed time the goroutine measures.
\<close>

type_synonym timing = "nat \<times> int"

text \<open>
  The run of the goroutine of a task (lines 150 to 203), from its launch to its end. Its
  context reports an error from some iteration on if it has been cancelled, and never
  otherwise. With a sensor it is \<open>worker\<close>. With the nil sensor every method call is a nil
  dereference: the first read panics, or, when the loop is left at once, the orientation
  read panics after the summary.
\<close>

definition goroutine :: "timing \<Rightarrow> task \<Rightarrow> event list" where
  "goroutine tm t =
     (let ctx_Err = (if cancelled t then cancelled_from (fst tm) else always False)
      in case task_imu t of
           Some sensor \<Rightarrow> worker sensor ctx_Err (snd tm)
         | None \<Rightarrow>
             map Logged (if ctx_Err 0 then summary sampling_start (snd tm) else []) @
             [Panicked, Done])"

text \<open>
  \<open>s.wg.Wait()\<close> blocks until the counter is zero. While it blocks, the lock is held, so
  neither \<open>Reconfigure\<close> nor \<open>Close\<close> runs; the goroutines that have not returned run to
  their end, goroutine \<open>i\<close> with the timing \<open>env i\<close>. If one of them panics, the process
  exits. If none does, each \<open>Done\<close> event of their runs lowers the counter by one; if the
  counter is zero then, \<open>Wait\<close> returns in that state, and if not, nothing is left to lower
  it and \<open>Wait\<close> blocks for ever.
\<close>

definition wg_Wait :: "(nat \<Rightarrow> timing) \<Rightarrow> stumbler \<Rightarrow> stumbler outcome" where
  "wg_Wait env s =
     (let runs = map (\<lambda>(i, t). goroutine (env i) t)
                     (filter (\<lambda>(i, t). \<not> returned t) (enumerate 0 (tasks s)))
      in if list_ex (\<lambda>r. Panicked \<in> set r) runs then ProcessExits
         else
           let s' = s\<lparr>tasks := map (\<lambda>t. t\<lparr>returned := True\<rparr>) (tasks s),
                       wg := wg s - int (sum_list (map (\<lambda>r. count_list r Done) runs))\<rparr>
           in if wg s' = 0 then Returns s' else BlocksForever)"

definition Close :: "(nat \<Rightarrow> timing) \<Rightarrow> stumbler \<Rightarrow> (stumbler \<times> error option) outcome" where
  "Close env s =
     (let s1 = s\<lparr>logger := logger s @ [LogInfo ''SMURF CLOSING STUMBLER'']\<rparr>;
          s2 = (case cancelFunc s1 of None \<Rightarrow> s1 | Some i \<Rightarrow> cancel i s1)
      in case wg_Wait env s2 of
           Returns s3 \<Rightarrow> Returns (s3, None)
         | ProcessExits \<Rightarrow> ProcessExits
         | BlocksForever \<Rightarrow> BlocksForever)"

subsection \<open>Notation for the properties, and sample inputs\<close>

text \<open>The values of one axis that a read returned in the iterations from \<open>i\<close> up to \<open>j\<close>.\<close>

definition fed :: "(nat \<Rightarrow> Vector \<times> error option) \<Rightarrow> (Vector \<Rightarrow> real) \<Rightarrow> nat \<Rightarrow> nat \<Rightarrow> real list" where
  "fed read axis i j = map (\<lambda>n. axis (fst (read n))) [i..<j]"

text \<open>What the loop logs in the iterations from \<open>i\<close> up to \<open>j\<close>: the errors of the reads, in order.\<close>

definition read_errors :: "MovementSensor \<Rightarrow> nat \<Rightarrow> nat \<Rightarrow> log_entry list" where
  "read_errors sensor i j =
     concat (map (\<lambda>n. log_if_err (snd (LinearAcceleration sensor n)) @
                       log_if_err (snd (AngularVelocity sensor n))) [i..<j])"

definition read_failed :: error where
  "read_failed = ErrorString ''read failed''"

definition vec :: "real \<Rightarrow> real \<Rightarrow> real \<Rightarrow> Vector" where
  "vec x y z = \<lparr>vec_X = x, vec_Y = y, vec_Z = z\<rparr>"

definition level :: EulerAngles where
  "level = \<lparr>Roll = 0, Pitch = 0, Yaw = 0\<rparr>"

text \<open>
  A sensor whose acceleration read succeeds with (10, 10, 10) in iteration 0 and fails from
  then on, returning the zero vector beside the error; the other reads succeed.
\<close>

definition accel_flaky :: "nat \<Rightarrow> Vector \<times> error option" where
  "accel_flaky n = (if n = 0 then (vec 10 10 10, None) else (vec 0 0 0, Some read_failed))"

definition imu_flaky :: MovementSensor where
  "imu_flaky =
     \<lparr>LinearAcceleration = accel_flaky,
      AngularVelocity = always (vec 1 2 3, None),
      Orientation = (Some level, None)\<rparr>"

text \<open>A sensor all of whose reads fail, returning zero values (and the nil orientation).\<close>

definition imu_dead :: MovementSensor where
  "imu_dead =
     \<lparr>LinearAcceleration = always (vec 0 0 0, Some read_failed),
      AngularVelocity = always (vec 0 0 0, Some read_failed),
      Orientation = (None, Some read_failed)\<rparr>"

text \<open>A sensor all of whose reads fail, returning the vector (1, 1, 1) beside the error.\<close>

definition imu_stuck :: MovementSensor where
  "imu_stuck =
     \<lparr>LinearAcceleration = always (vec 1 1 1, Some read_failed),
      AngularVelocity = always (vec 1 1 1, Some read_failed),
      Orientation = (None, Some read_failed)\<rparr>"

text \<open>A sensor whose orientation read fails and returns an orientation beside the error.\<close>

definition imu_lost :: MovementSensor where
  "imu_lost =
     \<lparr>LinearAcceleration = always (vec 0 0 0, None),
      AngularVelocity = always (vec 0 0 0, None),
      Orientation = (Some level, Some read_failed)\<rparr>"

text \<open>
  Dependencies that hold the flaky sensor under the name \<open>imu0\<close>, a configuration that
  names it, and the component that \<open>newStumbler\<close> makes of them: one goroutine running.
\<close>

definition sample_deps :: Dependencies where
  "sample_deps = [''imu0'' \<mapsto> MovementSensorResource imu_flaky]"

definition sample_conf :: resource_Config where
  "sample_conf = NativeAttributes \<lparr>IMU = ''imu0''\<rparr>"

definition running :: stumbler where
  "running = fst (newStumbler sample_deps sample_conf)"

text \<open>
  The same with the sensor all of whose reads fail: its orientation read returns the nil
  orientation beside the error.
\<close>

definition dead_deps :: Dependencies where
  "dead_deps = [''imu0'' \<mapsto> MovementSensorResource imu_dead]"

definition doomed :: stumbler where
  "doomed = fst (newStumbler dead_deps sample_conf)"

section \<open>Properties\<close>

subsection \<open>The moving average\<close>

lemma windowCapacity_Add: "windowCapacity (Add v w) = windowCapacity w"
  by (simp add: Add_def evict_def Let_def split: list.splits)

lemma buffer_Add:
  "buffer (Add v w) =
     (if length (buffer w) = windowCapacity w then tl (buffer w) else buffer w) @ [v]"
  by (simp add: Add_def evict_def Let_def split: list.splits)

lemma runningSum_Add:
  "runningSum (Add v w) =
     (if length (buffer w) = windowCapacity w \<and> buffer w \<noteq> []
      then runningSum w - hd (buffer w) else runningSum w) + v"
  by (simp add: Add_def evict_def Let_def split: list.splits)

text \<open>
  After any sequence of \<open>Add\<close> calls on a fresh average of positive capacity \<open>n\<close>, the buffer
  holds the last \<open>n\<close> values fed (all of them, if fewer) and the running sum is their sum.
\<close>

lemma fold_Add_New:
  assumes "0 < n"
  shows "windowCapacity (fold Add xs (New n)) = n \<and>
         buffer (fold Add xs (New n)) = drop (length xs - n) xs \<and>
         runningSum (fold Add xs (New n)) = sum_list (drop (length xs - n) xs)"
proof (induction xs rule: rev_induct)
  case Nil
  show ?case by (simp add: New_def)
next
  case (snoc x xs)
  define w where "w = fold Add xs (New n)"
  have step: "fold Add (xs @ [x]) (New n) = Add x w" by (simp add: w_def)
  from snoc have cap: "windowCapacity w = n"
    and buf: "buffer w = drop (length xs - n) xs"
    and rs: "runningSum w = sum_list (drop (length xs - n) xs)"
    by (simp_all add: w_def)
  show ?case
  proof (cases "length xs < n")
    case True
    then have "length (buffer w) \<noteq> windowCapacity w" using buf cap by simp
    then show ?thesis unfolding step using True buf rs cap
      by (simp add: windowCapacity_Add buffer_Add runningSum_Add)
  next
    case False
    then have full: "length (buffer w) = windowCapacity w" using buf cap by simp
    from False assms have lt: "length xs - n < length xs" by simp
    then obtain y ys where d: "drop (length xs - n) xs = y # ys"
      by (cases "drop (length xs - n) xs") auto
    have ys: "ys = drop (Suc (length xs - n)) xs"
      using d by (metis drop_Suc list.sel(3) tl_drop)
    have idx: "Suc (length xs) - n = Suc (length xs - n)" using False by simp
    show ?thesis unfolding step using full buf rs cap d ys idx
      by (simp add: windowCapacity_Add buffer_Add runningSum_Add)
  qed
qed

lemma Avg_fold_Add_New:
  assumes "0 < n"
  shows "Avg (fold Add xs (New n)) =
    (if xs = [] then 0
     else sum_list (drop (length xs - n) xs) / real (min (length xs) n))"
proof -
  have "length (drop (length xs - n) xs) = min (length xs) n" by simp
  moreover have "drop (length xs - n) xs = [] \<longleftrightarrow> xs = []" using assms by (cases xs) auto
  ultimately show ?thesis
    using fold_Add_New [OF assms, of xs] by (simp add: Avg_def)
qed

text \<open>
  Claim C3. Feed any sequence \<open>xs\<close> of values, in order, to a fresh average of capacity 50.
  If \<open>xs\<close> has at most 50 values (and at least one), \<open>Avg\<close> is the arithmetic mean of all of
  them; if it has more than 50, \<open>Avg\<close> is the arithmetic mean of exactly the last 50; if
  it has none, \<open>Avg\<close> is the sentinel 0. The division of \<open>Avg\<close> is reached only with a
  buffer that is not empty, and the buffer is not empty as soon as one value was fed.
  (Values are reals: the rounding of \<open>float64\<close> sums is not modelled.)
\<close>

theorem WindowedAverage_mean:
  "(xs \<noteq> [] \<and> length xs \<le> 50 \<longrightarrow>
      Avg (fold Add xs (New 50)) = sum_list xs / real (length xs)) \<and>
   (50 < length xs \<longrightarrow>
      Avg (fold Add xs (New 50)) = sum_list (drop (length xs - 50) xs) / 50) \<and>
   (xs \<noteq> [] \<longrightarrow> buffer (fold Add xs (New 50)) \<noteq> []) \<and>
   Avg (fold Add [] (New 50)) = 0"
proof -
  have a: "Avg (fold Add xs (New 50)) =
    (if xs = [] then 0 else sum_list (drop (length xs - 50) xs) / real (min (length xs) 50))"
    by (rule Avg_fold_Add_New) simp
  have b: "buffer (fold Add xs (New 50)) = drop (length xs - 50) xs"
    using fold_Add_New [of 50 xs] by simp
  have c: "Avg (fold Add [] (New 50)) = 0" by (simp add: Avg_def New_def)
  have d: "xs \<noteq> [] \<longrightarrow> drop (length xs - 50) xs \<noteq> []"
    by (cases xs) auto
  show ?thesis using a c d unfolding b by (simp add: min_def)
qed

text \<open>
  The theorem at three values, and at the scenario of the specification: fifty times 1,
  then 3, gives (49 + 3) / 50 = 1.04.
\<close>

theorem WindowedAverage_mean_witness:
  "Avg (fold Add [1, 2, 6] (New 50)) = 3 \<and>
   Avg (fold Add (replicate 50 1 @ [3]) (New 50)) = 26 / 25 \<and>
   buffer (fold Add [1, 2, 6] (New 50)) \<noteq> [] \<and>
   Avg (fold Add [] (New 50)) = 0"
  using WindowedAverage_mean [of "[1, 2, 6]"] WindowedAverage_mean [of "replicate 50 1 @ [3]"]
  by (simp add: sum_list_replicate)

subsection \<open>\<open>DoCommand\<close>\<close>

text \<open>
  Claim C6. A request without the key \<open>command\<close> fails with the error
  \<open>missing 'command' string\<close>; a request whose command is the string \<open>get\<close> succeeds with
  the empty map; a request with any other command value fails with the error
  \<open>unknown command string\<close> followed by the value as \<open>%s\<close> prints it (the value itself
  when it is a string).
\<close>

theorem DoCommand_result:
  "(req ''command'' = None \<longrightarrow>
      snd (DoCommand s req) = (None, Some (ErrorString ''missing 'command' string''))) \<and>
   (req ''command'' = Some (VString ''get'') \<longrightarrow>
      snd (DoCommand s req) = (Some Map.empty, None)) \<and>
   (\<forall>v. req ''command'' = Some v \<and> v \<noteq> VString ''get'' \<longrightarrow>
      snd (DoCommand s req) = (None, Some (ErrorString (''unknown command string '' @ fmt_s v))))"
  by (simp add: DoCommand_def)

theorem DoCommand_result_witness:
  "snd (DoCommand new_struct Map.empty) =
     (None, Some (ErrorString ''missing 'command' string'')) \<and>
   snd (DoCommand new_struct [''command'' \<mapsto> VString ''get'']) = (Some Map.empty, None) \<and>
   snd (DoCommand new_struct [''command'' \<mapsto> VString ''bogus'']) =
     (None, Some (ErrorString ''unknown command string bogus'')) \<and>
   snd (DoCommand new_struct [''command'' \<mapsto> VInt 7]) =
     (None, Some (ErrorString ''unknown command string %!s(int=7)''))"
  using DoCommand_result [of Map.empty new_struct]
    DoCommand_result [of "[''command'' \<mapsto> VString ''get'']" new_struct]
    DoCommand_result [of "[''command'' \<mapsto> VString ''bogus'']" new_struct]
    DoCommand_result [of "[''command'' \<mapsto> VInt 7]" new_struct]
  by (simp add: int_dec_def digit_char_def)

text \<open>
  Claim C10. \<open>DoCommand\<close> returns the component as it received it, on each of its three
  paths: the sensor, the cancel function, the wait group's counter and the goroutines are
  those of before the call.
\<close>

theorem DoCommand_frame: "fst (DoCommand s req) = s"
  by (simp add: DoCommand_def split: option.splits)

subsection \<open>The sampling loop\<close>

lemma iterations_iteration: "iterations (iteration sensor st) = Suc (iterations st)"
  by (simp add: iteration_def Let_def split: prod.splits)

lemma logged_iteration:
  "logged (iteration sensor st) =
     logged st @ log_if_err (snd (LinearAcceleration sensor (iterations st)))
               @ log_if_err (snd (AngularVelocity sensor (iterations st)))"
  by (simp add: iteration_def Let_def split: prod.splits)

lemma averages_iteration:
  "avgX (iteration sensor st) = Add (vec_X (fst (LinearAcceleration sensor (iterations st)))) (avgX st)"
  "avgY (iteration sensor st) = Add (vec_Y (fst (LinearAcceleration sensor (iterations st)))) (avgY st)"
  "avgZ (iteration sensor st) = Add (vec_Z (fst (LinearAcceleration sensor (iterations st)))) (avgZ st)"
  "avgRX (iteration sensor st) = Add (vec_X (fst (AngularVelocity sensor (iterations st)))) (avgRX st)"
  "avgRY (iteration sensor st) = Add (vec_Y (fst (AngularVelocity sensor (iterations st)))) (avgRY st)"
  "avgRZ (iteration sensor st) = Add (vec_Z (fst (AngularVelocity sensor (iterations st)))) (avgRZ st)"
  by (simp_all add: iteration_def Let_def split: prod.splits)

lemma sampling_loop_exit:
  "ctx_Err (iterations st) \<or> 10000 \<le> iterations st \<Longrightarrow> sampling_loop sensor ctx_Err st = st"
  by (subst sampling_loop.simps) simp

lemma sampling_loop_step:
  "\<not> ctx_Err (iterations st) \<Longrightarrow> iterations st < 10000 \<Longrightarrow>
   sampling_loop sensor ctx_Err st = sampling_loop sensor ctx_Err (iteration sensor st)"
  by (subst sampling_loop.simps) simp

lemma iterations_sampling_loop_ge: "iterations st \<le> iterations (sampling_loop sensor ctx_Err st)"
proof (induction sensor ctx_Err st rule: sampling_loop.induct)
  case (1 sensor ctx_Err st)
  show ?case
  proof (cases "ctx_Err (iterations st) \<or> 10000 \<le> iterations st")
    case True
    then show ?thesis by (simp add: sampling_loop_exit)
  next
    case False
    with "1" have "iterations (iteration sensor st) \<le> iterations (sampling_loop sensor ctx_Err (iteration sensor st))"
      by simp
    with False show ?thesis by (simp add: sampling_loop_step iterations_iteration)
  qed
qed

lemma iterations_never_cancelled:
  "iterations st \<le> 10000 \<Longrightarrow> iterations (sampling_loop sensor (always False) st) = 10000"
proof (induction sensor "always False :: nat \<Rightarrow> bool" st rule: sampling_loop.induct)
  case (1 sensor st)
  show ?case
  proof (cases "10000 \<le> iterations st")
    case True
    with "1.prems" show ?thesis by (simp add: sampling_loop_exit)
  next
    case False
    then have "iterations (iteration sensor st) \<le> 10000" by (simp add: iterations_iteration)
    with False "1.hyps" have "iterations (sampling_loop sensor (always False) (iteration sensor st)) = 10000"
      by (simp add: always_def)
    with False show ?thesis by (simp add: sampling_loop_step always_def)
  qed
qed

lemma fed_Cons: "i < j \<Longrightarrow> fed read axis i j = axis (fst (read i)) # fed read axis (Suc i) j"
  by (simp add: fed_def upt_conv_Cons)

lemma averages_sampling_loop:
  "avgX (sampling_loop sensor ctx_Err st) =
     fold Add (fed (LinearAcceleration sensor) vec_X (iterations st) (iterations (sampling_loop sensor ctx_Err st))) (avgX st) \<and>
   avgY (sampling_loop sensor ctx_Err st) =
     fold Add (fed (LinearAcceleration sensor) vec_Y (iterations st) (iterations (sampling_loop sensor ctx_Err st))) (avgY st) \<and>
   avgZ (sampling_loop sensor ctx_Err st) =
     fold Add (fed (LinearAcceleration sensor) vec_Z (iterations st) (iterations (sampling_loop sensor ctx_Err st))) (avgZ st) \<and>
   avgRX (sampling_loop sensor ctx_Err st) =
     fold Add (fed (AngularVelocity sensor) vec_X (iterations st) (iterations (sampling_loop sensor ctx_Err st))) (avgRX st) \<and>
   avgRY (sampling_loop sensor ctx_Err st) =
     fold Add (fed (AngularVelocity sensor) vec_Y (iterations st) (iterations (sampling_loop sensor ctx_Err st))) (avgRY st) \<and>
   avgRZ (sampling_loop sensor ctx_Err st) =
     fold Add (fed (AngularVelocity sensor) vec_Z (iterations st) (iterations (sampling_loop sensor ctx_Err st))) (avgRZ st)"
proof (induction sensor ctx_Err st rule: sampling_loop.induct)
  case (1 sensor ctx_Err st)
  show ?case
  proof (cases "ctx_Err (iterations st) \<or> 10000 \<le> iterations st")
    case True
    then show ?thesis by (simp add: sampling_loop_exit fed_def)
  next
    case False
    then have step: "sampling_loop sensor ctx_Err st = sampling_loop sensor ctx_Err (iteration sensor st)"
      by (simp add: sampling_loop_step)
    have "iterations (iteration sensor st) \<le> iterations (sampling_loop sensor ctx_Err (iteration sensor st))"
      by (rule iterations_sampling_loop_ge)
    then have lt: "iterations st < iterations (sampling_loop sensor ctx_Err (iteration sensor st))"
      by (simp add: iterations_iteration)
    from "1" False show ?thesis
      unfolding step by (simp add: fed_Cons [OF lt] iterations_iteration averages_iteration)
  qed
qed

text \<open>
  Claim C1, as amended. In every iteration, whether a read fails or not: the error of a
  failed read is logged; the vector that the read returned beside the error is fed into
  its three averages all the same (the code has no branch that skips the \<open>Add\<close> calls);
  the acceleration channels depend on the acceleration read only and the gyro channels on
  the angular-velocity read only; the counter goes up by one; and the loop is not
  aborted: unless the context is cancelled or the budget reached at the test, the loop
  goes on from the state the iteration leaves.
\<close>

theorem iteration_feeds_returned_vectors:
  "logged (iteration sensor st) =
     logged st @ log_if_err (snd (LinearAcceleration sensor (iterations st)))
               @ log_if_err (snd (AngularVelocity sensor (iterations st))) \<and>
   avgX (iteration sensor st) = Add (vec_X (fst (LinearAcceleration sensor (iterations st)))) (avgX st) \<and>
   avgY (iteration sensor st) = Add (vec_Y (fst (LinearAcceleration sensor (iterations st)))) (avgY st) \<and>
   avgZ (iteration sensor st) = Add (vec_Z (fst (LinearAcceleration sensor (iterations st)))) (avgZ st) \<and>
   avgRX (iteration sensor st) = Add (vec_X (fst (AngularVelocity sensor (iterations st)))) (avgRX st) \<and>
   avgRY (iteration sensor st) = Add (vec_Y (fst (AngularVelocity sensor (iterations st)))) (avgRY st) \<and>
   avgRZ (iteration sensor st) = Add (vec_Z (fst (AngularVelocity sensor (iterations st)))) (avgRZ st) \<and>
   iterations (iteration sensor st) = iterations st + 1 \<and>
   (\<not> ctx_Err (iterations st) \<and> iterations st < 10000 \<longrightarrow>
      sampling_loop sensor ctx_Err st = sampling_loop sensor ctx_Err (iteration sensor st))"
  by (simp add: logged_iteration averages_iteration iterations_iteration sampling_loop_step)

lemmas sample_defs =
  imu_flaky_def accel_flaky_def imu_dead_def imu_stuck_def imu_lost_def
  vec_def level_def always_def sampling_start_def

text \<open>
  The theorem at the second iteration of the flaky sensor, whose acceleration read fails
  there: the error is logged, the returned 0 is added to the X average, the gyro value 1
  is added to the RX average, and the loop continues.
\<close>

theorem iteration_feeds_returned_vectors_witness:
  "\<not> always False (iterations (iteration imu_flaky sampling_start)) \<and>
   iterations (iteration imu_flaky sampling_start) < 10000 \<and>
   snd (LinearAcceleration imu_flaky (iterations (iteration imu_flaky sampling_start))) = Some read_failed \<and>
   logged (iteration imu_flaky (iteration imu_flaky sampling_start)) = [LogError read_failed] \<and>
   avgX (iteration imu_flaky (iteration imu_flaky sampling_start)) =
     Add 0 (avgX (iteration imu_flaky sampling_start)) \<and>
   avgRX (iteration imu_flaky (iteration imu_flaky sampling_start)) =
     Add 1 (avgRX (iteration imu_flaky sampling_start)) \<and>
   iterations (iteration imu_flaky (iteration imu_flaky sampling_start)) = 2 \<and>
   sampling_loop imu_flaky (always False) (iteration imu_flaky sampling_start) =
     sampling_loop imu_flaky (always False) (iteration imu_flaky (iteration imu_flaky sampling_start))"
  using iteration_feeds_returned_vectors
    [of imu_flaky "iteration imu_flaky sampling_start" "always False"]
    iteration_feeds_returned_vectors [of imu_flaky sampling_start "always False"]
  by (simp add: sample_defs log_if_err_def)

text \<open>
  Claim C1 as stated fails: the acceleration read of iteration 1 fails, and the X average,
  which was 10 after iteration 0, is updated by that sample to 5.
\<close>

theorem failed_read_is_averaged:
  "snd (LinearAcceleration imu_flaky 1) = Some read_failed \<and>
   iterations (iteration imu_flaky sampling_start) = 1 \<and>
   Avg (avgX (iteration imu_flaky sampling_start)) = 10 \<and>
   Avg (avgX (iteration imu_flaky (iteration imu_flaky sampling_start))) = 5 \<and>
   avgX (iteration imu_flaky (iteration imu_flaky sampling_start)) \<noteq>
     avgX (iteration imu_flaky sampling_start)"
  by (simp add: averages_iteration iterations_iteration sample_defs Add_def New_def Avg_def Let_def)

subsection \<open>A run that is never cancelled\<close>

lemma drop_fed: "drop k (fed read axis i j) = fed read axis (i + k) j"
  by (simp add: fed_def drop_map add.commute)

lemma length_fed: "length (fed read axis i j) = j - i"
  by (simp add: fed_def)

lemma Avg_full_run:
  "Avg (fold Add (fed read axis 0 10000) (New 50)) = sum_list (fed read axis 9950 10000) / 50"
proof -
  have "Avg (fold Add (fed read axis 0 10000) (New 50)) =
      (if fed read axis 0 10000 = [] then 0
       else sum_list (drop (length (fed read axis 0 10000) - 50) (fed read axis 0 10000))
            / real (min (length (fed read axis 0 10000)) 50))"
    by (rule Avg_fold_Add_New) simp
  moreover have "fed read axis 0 10000 \<noteq> []"
    using length_fed [of read axis 0 10000] by auto
  ultimately show ?thesis by (simp add: drop_fed length_fed)
qed

lemma never_cancelled_run:
  "iterations (sampling_loop sensor (always False) sampling_start) = 10000 \<and>
   Avg (avgX (sampling_loop sensor (always False) sampling_start)) =
     sum_list (fed (LinearAcceleration sensor) vec_X 9950 10000) / 50 \<and>
   Avg (avgY (sampling_loop sensor (always False) sampling_start)) =
     sum_list (fed (LinearAcceleration sensor) vec_Y 9950 10000) / 50 \<and>
   Avg (avgZ (sampling_loop sensor (always False) sampling_start)) =
     sum_list (fed (LinearAcceleration sensor) vec_Z 9950 10000) / 50 \<and>
   Avg (avgRX (sampling_loop sensor (always False) sampling_start)) =
     sum_list (fed (AngularVelocity sensor) vec_X 9950 10000) / 50 \<and>
   Avg (avgRY (sampling_loop sensor (always False) sampling_start)) =
     sum_list (fed (AngularVelocity sensor) vec_Y 9950 10000) / 50 \<and>
   Avg (avgRZ (sampling_loop sensor (always False) sampling_start)) =
     sum_list (fed (AngularVelocity sensor) vec_Z 9950 10000) / 50"
proof -
  have n: "iterations (sampling_loop sensor (always False) sampling_start) = 10000"
    by (rule iterations_never_cancelled) (simp add: sampling_start_def)
  have s: "iterations sampling_start = 0" "avgX sampling_start = New 50"
    "avgY sampling_start = New 50" "avgZ sampling_start = New 50"
    "avgRX sampling_start = New 50" "avgRY sampling_start = New 50"
    "avgRZ sampling_start = New 50"
    by (simp_all add: sampling_start_def)
  show ?thesis
    using averages_sampling_loop [of sensor "always False" sampling_start]
    unfolding n s by (simp add: Avg_full_run)
qed

lemma last_worker: "last (worker sensor ctx_Err runtime) = Done"
  by (simp add: worker_def split: prod.splits)

lemma sum_list_fed_const:
  "\<forall>n. axis (fst (read n)) = c \<Longrightarrow> sum_list (fed read axis i j) = real (j - i) * c"
  by (simp add: fed_def map_replicate_const sum_list_replicate)

lemma read_errors_Cons:
  "i < j \<Longrightarrow> read_errors sensor i j =
     log_if_err (snd (LinearAcceleration sensor i)) @ log_if_err (snd (AngularVelocity sensor i)) @
     read_errors sensor (Suc i) j"
  by (simp add: read_errors_def upt_conv_Cons)

lemma logged_sampling_loop:
  "logged (sampling_loop sensor ctx_Err st) =
     logged st @ read_errors sensor (iterations st) (iterations (sampling_loop sensor ctx_Err st))"
proof (induction sensor ctx_Err st rule: sampling_loop.induct)
  case (1 sensor ctx_Err st)
  show ?case
  proof (cases "ctx_Err (iterations st) \<or> 10000 \<le> iterations st")
    case True
    then show ?thesis by (simp add: sampling_loop_exit read_errors_def)
  next
    case False
    then have step: "sampling_loop sensor ctx_Err st = sampling_loop sensor ctx_Err (iteration sensor st)"
      by (simp add: sampling_loop_step)
    have "iterations (iteration sensor st) \<le> iterations (sampling_loop sensor ctx_Err (iteration sensor st))"
      by (rule iterations_sampling_loop_ge)
    then have lt: "iterations st < iterations (sampling_loop sensor ctx_Err (iteration sensor st))"
      by (simp add: iterations_iteration)
    from "1" False show ?thesis
      unfolding step by (simp add: read_errors_Cons [OF lt] iterations_iteration logged_iteration)
  qed
qed

lemma length_read_errors_failing:
  assumes "\<forall>n. snd (LinearAcceleration sensor n) \<noteq> None"
    and "\<forall>n. snd (AngularVelocity sensor n) \<noteq> None"
  shows "length (read_errors sensor i j) = 2 * (j - i)"
proof -
  have "\<And>n. length (log_if_err (snd (LinearAcceleration sensor n)) @
                  log_if_err (snd (AngularVelocity sensor n))) = 2"
    using assms by (auto simp: log_if_err_def split: option.splits)
  then show ?thesis
    by (simp add: read_errors_def length_concat comp_def sum_list_triv)
qed

text \<open>
  Claim C4, as amended. A goroutine whose sensor fails every read and whose context is
  never cancelled leaves the loop after exactly 10000 iterations, having logged the 20000
  errors; each of the six averages ends as the mean of the last 50 values that the failing
  reads returned beside their errors, so all six are 0 when those reads return zero
  vectors; and the goroutine's last act is \<open>wg.Done\<close>.
\<close>

theorem always_failing_run:
  assumes "\<forall>n. snd (LinearAcceleration sensor n) \<noteq> None"
    and "\<forall>n. snd (AngularVelocity sensor n) \<noteq> None"
    and "snd (Orientation sensor) \<noteq> None"
  shows
  "iterations (sampling_loop sensor (always False) sampling_start) = 10000 \<and>
   length (logged (sampling_loop sensor (always False) sampling_start)) = 20000 \<and>
   Avg (avgX (sampling_loop sensor (always False) sampling_start)) =
     sum_list (fed (LinearAcceleration sensor) vec_X 9950 10000) / 50 \<and>
   Avg (avgY (sampling_loop sensor (always False) sampling_start)) =
     sum_list (fed (LinearAcceleration sensor) vec_Y 9950 10000) / 50 \<and>
   Avg (avgZ (sampling_loop sensor (always False) sampling_start)) =
     sum_list (fed (LinearAcceleration sensor) vec_Z 9950 10000) / 50 \<and>
   Avg (avgRX (sampling_loop sensor (always False) sampling_start)) =
     sum_list (fed (AngularVelocity sensor) vec_X 9950 10000) / 50 \<and>
   Avg (avgRY (sampling_loop sensor (always False) sampling_start)) =
     sum_list (fed (AngularVelocity sensor) vec_Y 9950 10000) / 50 \<and>
   Avg (avgRZ (sampling_loop sensor (always False) sampling_start)) =
     sum_list (fed (AngularVelocity sensor) vec_Z 9950 10000) / 50 \<and>
   ((\<forall>n. fst (LinearAcceleration sensor n) = vec 0 0 0 \<and> fst (AngularVelocity sensor n) = vec 0 0 0) \<longrightarrow>
      Avg (avgX (sampling_loop sensor (always False) sampling_start)) = 0 \<and>
      Avg (avgY (sampling_loop sensor (always False) sampling_start)) = 0 \<and>
      Avg (avgZ (sampling_loop sensor (always False) sampling_start)) = 0 \<and>
      Avg (avgRX (sampling_loop sensor (always False) sampling_start)) = 0 \<and>
      Avg (avgRY (sampling_loop sensor (always False) sampling_start)) = 0 \<and>
      Avg (avgRZ (sampling_loop sensor (always False) sampling_start)) = 0) \<and>
   last (worker sensor (always False) runtime) = Done"
proof -
  note run = never_cancelled_run [of sensor]
  have n: "iterations (sampling_loop sensor (always False) sampling_start) = 10000"
    using run by simp
  have "logged (sampling_loop sensor (always False) sampling_start) = read_errors sensor 0 10000"
    using logged_sampling_loop [of sensor "always False" sampling_start]
    unfolding n by (simp add: sampling_start_def)
  then have l: "length (logged (sampling_loop sensor (always False) sampling_start)) = 20000"
    using length_read_errors_failing [OF assms(1,2), of 0 10000] by simp
  have z: "sum_list (fed read axis 9950 10000) = 0" if "\<forall>n. axis (fst (read n)) = 0"
    for read :: "nat \<Rightarrow> Vector \<times> error option" and axis
    using sum_list_fed_const [OF that] by simp
  have zero: "(\<forall>n. fst (LinearAcceleration sensor n) = vec 0 0 0 \<and> fst (AngularVelocity sensor n) = vec 0 0 0) \<longrightarrow>
      Avg (avgX (sampling_loop sensor (always False) sampling_start)) = 0 \<and>
      Avg (avgY (sampling_loop sensor (always False) sampling_start)) = 0 \<and>
      Avg (avgZ (sampling_loop sensor (always False) sampling_start)) = 0 \<and>
      Avg (avgRX (sampling_loop sensor (always False) sampling_start)) = 0 \<and>
      Avg (avgRY (sampling_loop sensor (always False) sampling_start)) = 0 \<and>
      Avg (avgRZ (sampling_loop sensor (always False) sampling_start)) = 0"
  proof
    assume a: "\<forall>n. fst (LinearAcceleration sensor n) = vec 0 0 0 \<and>
      fst (AngularVelocity sensor n) = vec 0 0 0"
    have "sum_list (fed (LinearAcceleration sensor) vec_X 9950 10000) = 0"
      "sum_list (fed (LinearAcceleration sensor) vec_Y 9950 10000) = 0"
      "sum_list (fed (LinearAcceleration sensor) vec_Z 9950 10000) = 0"
      "sum_list (fed (AngularVelocity sensor) vec_X 9950 10000) = 0"
      "sum_list (fed (AngularVelocity sensor) vec_Y 9950 10000) = 0"
      "sum_list (fed (AngularVelocity sensor) vec_Z 9950 10000) = 0"
      using a by (simp_all add: z vec_def)
    then show "Avg (avgX (sampling_loop sensor (always False) sampling_start)) = 0 \<and>
      Avg (avgY (sampling_loop sensor (always False) sampling_start)) = 0 \<and>
      Avg (avgZ (sampling_loop sensor (always False) sampling_start)) = 0 \<and>
      Avg (avgRX (sampling_loop sensor (always False) sampling_start)) = 0 \<and>
      Avg (avgRY (sampling_loop sensor (always False) sampling_start)) = 0 \<and>
      Avg (avgRZ (sampling_loop sensor (always False) sampling_start)) = 0"
      using run by simp
  qed
  show ?thesis using run l zero last_worker [of sensor "always False" runtime] by simp
qed

text \<open>The theorem at the sensor that fails every read with zero values.\<close>

theorem always_failing_run_witness:
  "(\<forall>n. snd (LinearAcceleration imu_dead n) \<noteq> None) \<and>
   (\<forall>n. snd (AngularVelocity imu_dead n) \<noteq> None) \<and>
   snd (Orientation imu_dead) \<noteq> None \<and>
   iterations (sampling_loop imu_dead (always False) sampling_start) = 10000 \<and>
   length (logged (sampling_loop imu_dead (always False) sampling_start)) = 20000 \<and>
   Avg (avgX (sampling_loop imu_dead (always False) sampling_start)) = 0 \<and>
   Avg (avgRZ (sampling_loop imu_dead (always False) sampling_start)) = 0 \<and>
   last (worker imu_dead (always False) 5) = Done"
proof -
  have h: "\<forall>n. snd (LinearAcceleration imu_dead n) \<noteq> None"
    "\<forall>n. snd (AngularVelocity imu_dead n) \<noteq> None"
    "snd (Orientation imu_dead) \<noteq> None"
    by (simp_all add: imu_dead_def always_def)
  have v: "\<forall>n. fst (LinearAcceleration imu_dead n) = vec 0 0 0 \<and>
    fst (AngularVelocity imu_dead n) = vec 0 0 0"
    by (simp add: imu_dead_def always_def)
  show ?thesis using always_failing_run [OF h, of 5] h v by simp
qed

text \<open>
  Claim C4 as stated fails: every read of this sensor fails, the context is never
  cancelled, and the X average ends at 1, above the 0 it started from.
\<close>

theorem failing_reads_move_the_averages:
  "LinearAcceleration imu_stuck = always (vec 1 1 1, Some read_failed) \<and>
   AngularVelocity imu_stuck = always (vec 1 1 1, Some read_failed) \<and>
   Orientation imu_stuck = (None, Some read_failed) \<and>
   Avg (avgX sampling_start) = 0 \<and>
   Avg (avgX (sampling_loop imu_stuck (always False) sampling_start)) = 1"
proof -
  have "\<forall>n. vec_X (fst (LinearAcceleration imu_stuck n)) = 1"
    by (simp add: imu_stuck_def always_def vec_def)
  then have "sum_list (fed (LinearAcceleration imu_stuck) vec_X 9950 10000) = 50"
    using sum_list_fed_const [of vec_X "LinearAcceleration imu_stuck" 1 9950 10000] by simp
  then have "Avg (avgX (sampling_loop imu_stuck (always False) sampling_start)) = 1"
    using never_cancelled_run [of imu_stuck] by simp
  then show ?thesis
    by (simp add: imu_stuck_def sampling_start_def Avg_def New_def)
qed

subsection \<open>After the loop\<close>

lemma worker_after_loop:
  "worker sensor ctx_Err runtime =
     map Logged (logged (sampling_loop sensor ctx_Err sampling_start) @
                 summary (sampling_loop sensor ctx_Err sampling_start) runtime @
                 log_if_err (snd (Orientation sensor))) @
     (case fst (Orientation sensor) of
        None \<Rightarrow> [Panicked, Done]
      | Some angles \<Rightarrow>
          [Logged (OrientationInfo (Pitch angles) (Roll angles) (Yaw angles)), Done])"
  by (simp add: worker_def worker_body_def Let_def split: prod.splits option.splits)

lemma Panicked_worker:
  "Panicked \<in> set (worker sensor ctx_Err runtime) \<longleftrightarrow> fst (Orientation sensor) = None"
  by (auto simp: worker_after_loop split: option.splits)

lemma count_Done_worker: "count_list (worker sensor ctx_Err runtime) Done = 1"
proof -
  have "count_list (map Logged out) Done = 0" for out
    by (induction out) simp_all
  then show ?thesis by (simp add: worker_after_loop split: option.splits)
qed

text \<open>
  Claim C5 does not hold of the code. The orientation read of this sensor fails and
  returns, as a failed read does, the nil orientation beside the error. The goroutine
  logs the error and goes on to \<open>pose.EulerAngles()\<close>: a nil dereference. The run shown is
  all of it: the summary, the error, the panic and the deferred \<open>wg.Done\<close>; then the
  process exits. And when a failed read returns an orientation beside its error, the
  orientation line is logged after the error, not omitted.
\<close>

theorem failed_orientation_read_panics:
  "Orientation imu_dead = (None, Some read_failed) \<and>
   worker imu_dead (always True) 5 =
     [Logged (RunFinished 5 0 (Finite 0)), Logged (Averages 0 0 0 0 0 0),
      Logged (LogError read_failed), Panicked, Done] \<and>
   Orientation imu_lost = (Some level, Some read_failed) \<and>
   worker imu_lost (always True) 5 =
     [Logged (RunFinished 5 0 (Finite 0)), Logged (Averages 0 0 0 0 0 0),
      Logged (LogError read_failed), Logged (OrientationInfo 0 0 0), Done]"
proof -
  have st: "sampling_loop sensor (always True) sampling_start = sampling_start" for sensor
    by (rule sampling_loop_exit) (simp add: always_def)
  have s: "summary sampling_start 5 = [RunFinished 5 0 (Finite 0), Averages 0 0 0 0 0 0]"
    by (simp add: summary_def sampling_start_def Avg_def New_def float64_div_def Seconds_def)
  have l: "logged sampling_start = []" by (simp add: sampling_start_def)
  show ?thesis
    unfolding worker_after_loop st s l
    by (simp add: imu_dead_def imu_lost_def level_def log_if_err_def)
qed

text \<open>
  Claim C8, as amended. On loop exit the goroutine logs, after what the loop logged, the
  line "Run Finished" with the runtime, the iteration count and the frequency, and the
  line "Averages" with the six averages. The frequency is the quotient of the iteration
  count by the elapsed seconds, computed with no guard: for a non-zero elapsed time it is
  that quotient, and for a zero elapsed time it is +Inf after at least one iteration and
  NaN after none.
\<close>

theorem run_summary:
  "(let st = sampling_loop sensor ctx_Err sampling_start;
        updateFreq = float64_div (real (iterations st)) (Seconds runtime) in
     take (length (logged st) + 2) (worker sensor ctx_Err runtime) =
       map Logged (logged st) @
       [Logged (RunFinished runtime (iterations st) updateFreq),
        Logged (Averages (Avg (avgX st)) (Avg (avgY st)) (Avg (avgZ st))
                         (Avg (avgRX st)) (Avg (avgRY st)) (Avg (avgRZ st)))] \<and>
     (runtime \<noteq> 0 \<longrightarrow> updateFreq = Finite (real (iterations st) / Seconds runtime)) \<and>
     (runtime = 0 \<and> 0 < iterations st \<longrightarrow> updateFreq = PosInf) \<and>
     (runtime = 0 \<and> iterations st = 0 \<longrightarrow> updateFreq = NaN))"
  by (simp add: Let_def worker_def worker_body_def summary_def float64_div_def Seconds_def
      split: prod.splits option.splits)

text \<open>A context cancelled when iteration 2 is about to begin: the loop runs twice.\<close>

lemma two_iterations:
  "sampling_loop sensor (cancelled_from 2) sampling_start =
     iteration sensor (iteration sensor sampling_start)"
proof -
  have i0: "iterations sampling_start = 0" by (simp add: sampling_start_def)
  have "sampling_loop sensor (cancelled_from 2) sampling_start =
      sampling_loop sensor (cancelled_from 2) (iteration sensor sampling_start)"
    by (rule sampling_loop_step) (simp_all add: i0 cancelled_from_def)
  also have "\<dots> = sampling_loop sensor (cancelled_from 2)
      (iteration sensor (iteration sensor sampling_start))"
    by (rule sampling_loop_step) (simp_all add: i0 iterations_iteration cancelled_from_def)
  also have "\<dots> = iteration sensor (iteration sensor sampling_start)"
    by (rule sampling_loop_exit) (simp add: i0 iterations_iteration cancelled_from_def)
  finally show ?thesis .
qed

text \<open>
  The theorem at two iterations in two seconds (frequency 1), at two iterations in no
  time (+Inf) and at no iteration in no time (NaN).
\<close>

theorem run_summary_witness:
  "take 3 (worker imu_flaky (cancelled_from 2) 2000000000) =
     [Logged (LogError read_failed),
      Logged (RunFinished 2000000000 2 (Finite 1)),
      Logged (Averages 5 5 5 1 2 3)] \<and>
   take 3 (worker imu_flaky (cancelled_from 2) 0) =
     [Logged (LogError read_failed),
      Logged (RunFinished 0 2 PosInf),
      Logged (Averages 5 5 5 1 2 3)] \<and>
   take 2 (worker imu_flaky (always True) 0) =
     [Logged (RunFinished 0 0 NaN), Logged (Averages 0 0 0 0 0 0)]"
proof -
  have st: "sampling_loop imu_flaky (always True) sampling_start = sampling_start"
    by (rule sampling_loop_exit) (simp add: always_def)
  have av: "logged (iteration imu_flaky (iteration imu_flaky sampling_start)) = [LogError read_failed]"
    "iterations (iteration imu_flaky (iteration imu_flaky sampling_start)) = 2"
    "Avg (avgX (iteration imu_flaky (iteration imu_flaky sampling_start))) = 5"
    "Avg (avgY (iteration imu_flaky (iteration imu_flaky sampling_start))) = 5"
    "Avg (avgZ (iteration imu_flaky (iteration imu_flaky sampling_start))) = 5"
    "Avg (avgRX (iteration imu_flaky (iteration imu_flaky sampling_start))) = 1"
    "Avg (avgRY (iteration imu_flaky (iteration imu_flaky sampling_start))) = 2"
    "Avg (avgRZ (iteration imu_flaky (iteration imu_flaky sampling_start))) = 3"
    by (simp_all add: logged_iteration averages_iteration iterations_iteration log_if_err_def
        sample_defs Add_def New_def Avg_def Let_def)
  have z: "logged sampling_start = []" "iterations sampling_start = 0"
    "Avg (avgX sampling_start) = 0" "Avg (avgY sampling_start) = 0" "Avg (avgZ sampling_start) = 0"
    "Avg (avgRX sampling_start) = 0" "Avg (avgRY sampling_start) = 0" "Avg (avgRZ sampling_start) = 0"
    by (simp_all add: sampling_start_def Avg_def New_def)
  show ?thesis
    using run_summary [of imu_flaky "cancelled_from 2" 2000000000]
      run_summary [of imu_flaky "cancelled_from 2" 0]
      run_summary [of imu_flaky "always True" 0]
    unfolding two_iterations st Let_def av z
    by (simp add: Seconds_def numeral_3_eq_3 numeral_2_eq_2)
qed

text \<open>
  Claim C8 as stated fails: with a zero elapsed time the division is carried out, and the
  frequency logged is NaN.
\<close>

theorem frequency_of_zero_elapsed_time:
  "Seconds 0 = 0 \<and>
   Logged (RunFinished 0 0 NaN) \<in> set (worker imu_flaky (always True) 0)"
proof -
  have st: "sampling_loop imu_flaky (always True) sampling_start = sampling_start"
    by (rule sampling_loop_exit) (simp add: always_def)
  show ?thesis
    unfolding worker_after_loop st
    by (simp add: summary_def Seconds_def float64_div_def sampling_start_def)
qed

subsection \<open>Configuration errors\<close>

text \<open>
  Claim C9. \<open>Validate\<close> on a configuration whose \<open>imu\<close> field is empty (an absent JSON key
  decodes to the empty string) fails with the field-required error for the field \<open>imu\<close>
  under the given path; it is a function of the configuration alone, so it starts no
  goroutine. Whenever \<open>Reconfigure\<close> returns an error, the component is as it was before
  the call: same sensor, cancel function, counter and goroutines. And when \<open>newStumbler\<close>
  returns an error, the component it returns has no goroutine.
\<close>

theorem configuration_errors:
  "(IMU cfg = '''' \<longrightarrow> Validate cfg path = (None, Some (FieldRequiredError path ''imu''))) \<and>
   (\<forall>e. snd (Reconfigure deps conf s) = Some e \<longrightarrow> fst (Reconfigure deps conf s) = s) \<and>
   (\<forall>e. snd (newStumbler deps conf) = Some e \<longrightarrow> tasks (fst (newStumbler deps conf)) = [])"
  by (auto simp: Validate_def Reconfigure_def newStumbler_def startBackground_def new_struct_def
      split: sum.splits)

text \<open>The sample component, evaluated.\<close>

lemma running_eq:
  "running =
     \<lparr>imu = Some imu_flaky, cancelFunc = Some 0, wg = 1,
      tasks = [\<lparr>task_imu = Some imu_flaky, cancelled = False, returned = False\<rparr>],
      logger = []\<rparr>"
  by (simp add: running_def newStumbler_def Reconfigure_def NativeConfig_def FromDependencies_def
      sample_deps_def sample_conf_def startBackground_def new_struct_def)

text \<open>
  The theorem at the empty \<open>imu\<close> field: \<open>Validate\<close> reports it; \<open>Reconfigure\<close> of the running
  sample component with that configuration, and construction from attributes of the
  wrong type, fail and start nothing.
\<close>

theorem configuration_errors_witness:
  "IMU \<lparr>IMU = ''''\<rparr> = '''' \<and>
   Validate \<lparr>IMU = ''''\<rparr> ''components.0'' =
     (None, Some (FieldRequiredError ''components.0'' ''imu'')) \<and>
   snd (Reconfigure sample_deps (NativeAttributes \<lparr>IMU = ''''\<rparr>) running) =
     Some (DependencyNotFound '''') \<and>
   fst (Reconfigure sample_deps (NativeAttributes \<lparr>IMU = ''''\<rparr>) running) = running \<and>
   snd (newStumbler sample_deps OtherAttributes) = Some UnexpectedConfigType \<and>
   tasks (fst (newStumbler sample_deps OtherAttributes)) = []"
proof -
  have a: "snd (Reconfigure sample_deps (NativeAttributes \<lparr>IMU = ''''\<rparr>) running) =
      Some (DependencyNotFound '''')"
    by (simp add: Reconfigure_def NativeConfig_def FromDependencies_def sample_deps_def)
  have b: "snd (newStumbler sample_deps OtherAttributes) = Some UnexpectedConfigType"
    by (simp add: newStumbler_def Reconfigure_def NativeConfig_def)
  show ?thesis
    using configuration_errors [of "\<lparr>IMU = ''''\<rparr>" "''components.0''" sample_deps
        "NativeAttributes \<lparr>IMU = ''''\<rparr>" running]
      configuration_errors [of "\<lparr>IMU = ''''\<rparr>" "''components.0''" sample_deps
        OtherAttributes running]
      a b
    by simp
qed

subsection \<open>\<open>Close\<close>\<close>

lemma doomed_eq:
  "doomed =
     \<lparr>imu = Some imu_dead, cancelFunc = Some 0, wg = 1,
      tasks = [\<lparr>task_imu = Some imu_dead, cancelled = False, returned = False\<rparr>],
      logger = []\<rparr>"
  by (simp add: doomed_def newStumbler_def Reconfigure_def NativeConfig_def FromDependencies_def
      dead_deps_def sample_conf_def startBackground_def new_struct_def)

text \<open>
  Claim C7 does not hold of the code. The component is constructed over the sensor whose
  orientation read returns the nil orientation beside its error; one goroutine runs.
  \<open>Close\<close> cancels its context and waits. Whenever the goroutine leaves its loop, it logs
  the summary and the error of the orientation read and panics on the nil orientation:
  the process exits, and \<open>Close\<close> has not returned success. This holds for every timing of
  the goroutine. (It is the defect of claim C5, seen from \<open>Close\<close>.)
\<close>

theorem Close_with_panicking_goroutine:
  "tasks doomed = [\<lparr>task_imu = Some imu_dead, cancelled = False, returned = False\<rparr>] \<and>
   cancelFunc doomed = Some 0 \<and>
   Panicked \<in> set (goroutine (env 0) \<lparr>task_imu = Some imu_dead, cancelled = True, returned = False\<rparr>) \<and>
   Close env doomed = ProcessExits"
  by (simp add: doomed_eq Close_def cancel_def wg_Wait_def goroutine_def Let_def
      Panicked_worker imu_dead_def)

subsection \<open>\<open>Reconfigure\<close> of a running component\<close>

text \<open>
  Claim C2 does not hold of the code. \<open>Reconfigure\<close> of the running sample component
  returns with two goroutines that have not returned, the first of them not cancelled:
  \<open>startBackground\<close> stores the new cancel function over the old one without calling it
  and without waiting. A \<open>Close\<close> after that cancels the second goroutine only; the first
  is waited for, and ends with its context never cancelled. (This sensor's orientation
  is not nil, so neither goroutine panics, whatever the timing.)
\<close>

theorem Reconfigure_leaves_previous_goroutine:
  "tasks running = [\<lparr>task_imu = Some imu_flaky, cancelled = False, returned = False\<rparr>] \<and>
   Reconfigure sample_deps sample_conf running =
     (\<lparr>imu = Some imu_flaky, cancelFunc = Some 1, wg = 2,
       tasks = [\<lparr>task_imu = Some imu_flaky, cancelled = False, returned = False\<rparr>,
                \<lparr>task_imu = Some imu_flaky, cancelled = False, returned = False\<rparr>],
       logger = []\<rparr>, None) \<and>
   Close env (fst (Reconfigure sample_deps sample_conf running)) =
     Returns (\<lparr>imu = Some imu_flaky, cancelFunc = Some 1, wg = 0,
            tasks = [\<lparr>task_imu = Some imu_flaky, cancelled = False, returned = True\<rparr>,
                     \<lparr>task_imu = Some imu_flaky, cancelled = True, returned = True\<rparr>],
            logger = [LogInfo ''SMURF CLOSING STUMBLER'']\<rparr>, None)"
  by (simp add: running_eq Reconfigure_def NativeConfig_def FromDependencies_def
      sample_deps_def sample_conf_def startBackground_def
      Close_def cancel_def wg_Wait_def goroutine_def Let_def
      Panicked_worker count_Done_worker imu_flaky_def)

end
